theory Spec2Isabelle
  imports Main
begin

section \<open>Strings of the source\<close>

text \<open>
  The source is \<^verbatim>\<open>src/server/info.ts\<close>. Its strings are modelled as HOL strings
  (lists of 8-bit characters, read as UTF-8), its numbers as integers: every number the
  functions below compute with is a port, a player count, a list length or a latency.
  White space is the ASCII part of what \<^verbatim>\<open>String.prototype.trim\<close> and
  \<^verbatim>\<open>parseInt\<close> skip (TAB, LF, VT, FF, CR, SP), and \<^verbatim>\<open>toLowerCase\<close> maps the
  ASCII capitals; characters beyond ASCII are left alone by both, and are ordinary
  characters for the regular expressions.
\<close>

definition isDigit :: "char \<Rightarrow> bool" where
  "isDigit c = (c \<in> set ''0123456789'')"

definition isSpace :: "char \<Rightarrow> bool" where
  "isSpace c = (c \<in> set [CHR 0x09, CHR 0x0A, CHR 0x0B, CHR 0x0C, CHR 0x0D, CHR 0x20])"

definition lowerChar :: "char \<Rightarrow> char" where
  "lowerChar c =
     (case map_of (zip ''ABCDEFGHIJKLMNOPQRSTUVWXYZ'' ''abcdefghijklmnopqrstuvwxyz'') c of
        Some l \<Rightarrow> l
      | None \<Rightarrow> c)"

definition toLowerCase :: "string \<Rightarrow> string" where
  "toLowerCase s = map lowerChar s"

definition trim :: "string \<Rightarrow> string" where
  "trim s = rev (dropWhile isSpace (rev (dropWhile isSpace s)))"

definition startsWith :: "string \<Rightarrow> string \<Rightarrow> bool" where
  \<comment> \<open>\<^verbatim>\<open>s.startsWith(p)\<close>, also a regular expression \<^verbatim>\<open>/^p/\<close> of literal characters\<close>
  "startsWith s p = (take (length p) s = p)"

definition endsWith :: "string \<Rightarrow> string \<Rightarrow> bool" where
  "endsWith s p = (length p \<le> length s \<and> drop (length s - length p) s = p)"

text \<open>\<^verbatim>\<open>s.split(c)\<close> for a one-character separator: never empty, \<^verbatim>\<open>''.split(c)\<close> is \<^verbatim>\<open>['']\<close>.\<close>

fun split :: "char \<Rightarrow> string \<Rightarrow> string list" where
  "split c [] = [[]]"
| "split c (x # xs) =
     (if x = c then [] # split c xs
      else (case split c xs of [] \<Rightarrow> [[x]] | y # ys \<Rightarrow> (x # y) # ys))"

fun join :: "string \<Rightarrow> string list \<Rightarrow> string" where
  "join sep [] = []"
| "join sep [x] = x"
| "join sep (x # y # ys) = x @ sep @ join sep (y # ys)"

definition beforeLast :: "char \<Rightarrow> string \<Rightarrow> string" where
  \<comment> \<open>\<^verbatim>\<open>s.substring(0, s.lastIndexOf(c))\<close>, for a string that contains \<^verbatim>\<open>c\<close>\<close>
  "beforeLast c s = rev (drop 1 (dropWhile (\<lambda>x. x \<noteq> c) (rev s)))"

definition afterLast :: "char \<Rightarrow> string \<Rightarrow> string" where
  \<comment> \<open>\<^verbatim>\<open>s.substring(s.lastIndexOf(c) + 1)\<close>; the whole string when \<^verbatim>\<open>c\<close> is not in it\<close>
  "afterLast c s = rev (takeWhile (\<lambda>x. x \<noteq> c) (rev s))"

subsection \<open>Numbers read from and written to strings\<close>

definition digitVal :: "char \<Rightarrow> nat" where
  "digitVal c = of_char c - 48"

definition digitsVal :: "string \<Rightarrow> nat" where
  "digitsVal ds = foldl (\<lambda>a c. 10 * a + digitVal c) 0 ds"

definition isHexDigit :: "char \<Rightarrow> bool" where
  "isHexDigit c = (c \<in> set ''0123456789abcdefABCDEF'')"

definition hexVal :: "char \<Rightarrow> nat" where
  "hexVal c = (if isDigit c then digitVal c else of_char (lowerChar c) - 87)"

definition stripSign :: "string \<Rightarrow> bool \<times> string" where
  \<comment> \<open>white space is skipped, then one sign is read\<close>
  "stripSign s =
     (case dropWhile isSpace s of
        [] \<Rightarrow> (False, [])
      | c # r \<Rightarrow> if c = CHR ''-'' then (True, r)
                 else if c = CHR ''+'' then (False, r) else (False, c # r))"

definition signed :: "bool \<Rightarrow> nat \<Rightarrow> int" where
  "signed neg n = (if neg then - int n else int n)"

text \<open>
  \<^verbatim>\<open>parseInt(s, 10)\<close>: the longest run of decimal digits after the sign;
  \<open>None\<close> is \<^verbatim>\<open>NaN\<close>. What follows the digits is ignored.
\<close>

definition parseInt10 :: "string \<Rightarrow> int option" where
  "parseInt10 s =
     (case stripSign s of (neg, r) \<Rightarrow>
        (let ds = takeWhile isDigit r
         in if ds = [] then None else Some (signed neg (digitsVal ds))))"

text \<open>
  \<^verbatim>\<open>parseInt(s)\<close> with no radix: a prefix \<^verbatim>\<open>0x\<close> or \<^verbatim>\<open>0X\<close> after the sign
  switches to base 16.
\<close>

definition parseInt :: "string \<Rightarrow> int option" where
  "parseInt s =
     (case stripSign s of (neg, r) \<Rightarrow>
        (if startsWith r ''0x'' \<or> startsWith r ''0X''
         then (let hs = takeWhile isHexDigit (drop 2 r)
               in if hs = [] then None
                  else Some (signed neg (foldl (\<lambda>a c. 16 * a + hexVal c) 0 hs)))
         else (let ds = takeWhile isDigit r
               in if ds = [] then None else Some (signed neg (digitsVal ds)))))"

definition digitChar :: "nat \<Rightarrow> char" where
  "digitChar d = ''0123456789'' ! d"

fun natToString :: "nat \<Rightarrow> string" where
  "natToString n = (if n < 10 then [digitChar n] else natToString (n div 10) @ [digitChar (n mod 10)])"

declare natToString.simps [simp del]

definition numToString :: "int \<Rightarrow> string" where
  \<comment> \<open>\<^verbatim>\<open>Number.prototype.toString\<close> and string interpolation of an integer\<close>
  "numToString i = (if i < 0 then CHR ''-'' # natToString (nat (- i)) else natToString (nat i))"

section \<open>Address validation\<close>

text \<open>
  Each entry of \<^verbatim>\<open>FORBIDDEN_PATTERNS\<close> is the test of one regular expression of the
  source, in the source's order: \<^verbatim>\<open>^localhost$\<close>, \<^verbatim>\<open>^127\.\<close>, \<^verbatim>\<open>^0\.0\.0\.0$\<close>,
  \<^verbatim>\<open>^\[::\]\<close>, \<^verbatim>\<open>^::$\<close>, \<^verbatim>\<open>^\[::1\]\<close>, \<^verbatim>\<open>^10\.\<close>, \<^verbatim>\<open>^(192\.168)\.\<close>,
  the one of \<open>private172\<close>, \<^verbatim>\<open>^(169\.254)\.\<close>, \<^verbatim>\<open>^fe80:\<close>, \<^verbatim>\<open>^[fd]\<close> and
  \<^verbatim>\<open>^ff\<close>. A pattern that ends in \<^verbatim>\<open>$\<close> has to match the whole string, the others
  a prefix of it.
\<close>

definition private172 :: "string \<Rightarrow> bool" where
  \<comment> \<open>\<^verbatim>\<open>/^(172\.(1[6-9]|2[0-9]|3[0-1]))\./\<close>\<close>
  "private172 s =
     (startsWith s ''172.'' \<and>
      (case drop 4 s of
         a # b # c # _ \<Rightarrow>
           c = CHR ''.'' \<and>
           ((a = CHR ''1'' \<and> b \<in> set ''6789'') \<or> (a = CHR ''2'' \<and> isDigit b) \<or>
            (a = CHR ''3'' \<and> b \<in> set ''01''))
       | _ \<Rightarrow> False))"

definition FORBIDDEN_PATTERNS :: "(string \<Rightarrow> bool) list" where
  "FORBIDDEN_PATTERNS =
     [ (\<lambda>s. s = ''localhost''),
       (\<lambda>s. startsWith s ''127.''),
       (\<lambda>s. s = ''0.0.0.0''),
       (\<lambda>s. startsWith s ''[::]''),
       (\<lambda>s. s = ''::''),
       (\<lambda>s. startsWith s ''[::1]''),
       (\<lambda>s. startsWith s ''10.''),
       (\<lambda>s. startsWith s ''192.168.''),
       private172,
       (\<lambda>s. startsWith s ''169.254.''),
       (\<lambda>s. startsWith s ''fe80:''),
       (\<lambda>s. case s of [] \<Rightarrow> False | c # _ \<Rightarrow> c = CHR ''f'' \<or> c = CHR ''d''),
       (\<lambda>s. startsWith s ''ff'') ]"

text \<open>
  \<^verbatim>\<open>validateServerAddress\<close> returns the input, or \<^verbatim>\<open>null\<close> (\<open>None\<close>). The port
  part is checked only when it is a non-empty string (\<^verbatim>\<open>if (portPart)\<close>).
\<close>

definition validateServerAddress :: "string \<Rightarrow> string option" where
  "validateServerAddress input =
     (let lowerAddr = toLowerCase input in
      if list_ex (\<lambda>pattern. pattern lowerAddr) FORBIDDEN_PATTERNS then None
      else
        (let portPart = (if CHR '':'' \<in> set lowerAddr
                         then Some (afterLast (CHR '':'') lowerAddr) else None)
         in case portPart of
              None \<Rightarrow> Some input
            | Some p \<Rightarrow>
                if p = [] then Some input
                else (case parseInt10 p of
                        None \<Rightarrow> None
                      | Some port \<Rightarrow> if port < 1 \<or> port > 65535 then None else Some input)))"

section \<open>Address parsing\<close>

record Address =
  host :: string
  port :: int

definition isLineTerminator :: "char \<Rightarrow> bool" where
  \<comment> \<open>what \<^verbatim>\<open>.\<close> of a regular expression does not match, within ASCII\<close>
  "isLineTerminator c = (c = CHR 0x0A \<or> c = CHR 0x0D)"

text \<open>
  \<^verbatim>\<open>/^\[(.+)\]:(\d+)$/\<close>: the second group is the run of digits the string ends with,
  the first what lies between the opening bracket and the \<^verbatim>\<open>]:\<close> before that run.
  The result is the pair of the two groups.
\<close>

definition matchIpv6WithPort :: "string \<Rightarrow> (string \<times> string) option" where
  "matchIpv6WithPort s =
     (case s of
        [] \<Rightarrow> None
      | c # r \<Rightarrow>
          (let ds = rev (takeWhile isDigit (rev r));
               pre = rev (dropWhile isDigit (rev r));
               addr = take (length pre - 2) pre
           in if c = CHR ''['' \<and> ds \<noteq> [] \<and> endsWith pre '']:'' \<and> addr \<noteq> [] \<and>
                 \<not> list_ex isLineTerminator addr
              then Some (addr, ds) else None))"

text \<open>\<^verbatim>\<open>/^\[(.+)\]$/\<close>; the result is the group.\<close>

definition matchIpv6 :: "string \<Rightarrow> string option" where
  "matchIpv6 s =
     (case s of
        [] \<Rightarrow> None
      | c # r \<Rightarrow>
          (let addr = take (length r - 1) r
           in if c = CHR ''['' \<and> endsWith r '']'' \<and> addr \<noteq> [] \<and>
                 \<not> list_ex isLineTerminator addr
              then Some addr else None))"



definition parseServerAddress :: "string \<Rightarrow> int \<Rightarrow> Address" where
  "parseServerAddress address defaultPort =
     (case matchIpv6WithPort address of
        Some (a, p) \<Rightarrow> \<lparr>host = a, port = int (digitsVal p)\<rparr>
      | None \<Rightarrow>
     (case matchIpv6 address of
        Some a \<Rightarrow> \<lparr>host = a, port = defaultPort\<rparr>
      | None \<Rightarrow>
     if length (split (CHR '':'') address) > 2 \<and> \<not> endsWith address '']''
     then \<lparr>host = address, port = defaultPort\<rparr>
     else if CHR '':'' \<in> set address
     then (case parseInt10 (afterLast (CHR '':'') address) of
             Some n \<Rightarrow> \<lparr>host = beforeLast (CHR '':'') address, port = n\<rparr>
           | None \<Rightarrow> \<lparr>host = address, port = defaultPort\<rparr>)
     else \<lparr>host = address, port = defaultPort\<rparr>))"

section \<open>Untyped payloads\<close>

text \<open>
  A provider's payload is whatever \<^verbatim>\<open>res.json()\<close> decodes, and the source reads it as
  \<^verbatim>\<open>any\<close>; the objects \<^verbatim>\<open>normalizeApiResponse\<close> and \<^verbatim>\<open>fetchServerStatus\<close> build
  from it are declared \<^verbatim>\<open>ServerStatus\<close>, but their fields hold what the payload held.
  Both are therefore JavaScript values. An object is the list of its own properties in
  the order they were written; \<open>JUndef\<close> is \<^verbatim>\<open>undefined\<close>, which is also what reading a
  property that an object does not have gives.
\<close>

datatype jsval =
    JUndef
  | JNull
  | JBool bool
  | JNum int
  | JStr string
  | JArr "jsval list"
  | JObj "(string \<times> jsval) list"

datatype error = TypeError | ProbeError

definition isNullish :: "jsval \<Rightarrow> bool" where
  "isNullish v = (v = JUndef \<or> v = JNull)"

definition truthy :: "jsval \<Rightarrow> bool" where
  "truthy v =
     (case v of
        JUndef \<Rightarrow> False
      | JNull \<Rightarrow> False
      | JBool b \<Rightarrow> b
      | JNum n \<Rightarrow> n \<noteq> 0
      | JStr s \<Rightarrow> s \<noteq> []
      | JArr _ \<Rightarrow> True
      | JObj _ \<Rightarrow> True)"

definition orElse :: "jsval \<Rightarrow> jsval \<Rightarrow> jsval" where
  \<comment> \<open>\<^verbatim>\<open>a || b\<close>\<close>
  "orElse a b = (if truthy a then a else b)"

definition coalesce :: "jsval \<Rightarrow> jsval \<Rightarrow> jsval" where
  \<comment> \<open>\<^verbatim>\<open>a ?? b\<close>\<close>
  "coalesce a b = (if isNullish a then b else a)"

definition isArray :: "jsval \<Rightarrow> bool" where
  "isArray v = (case v of JArr _ \<Rightarrow> True | _ \<Rightarrow> False)"

text \<open>
  \<open>field v k\<close> is \<^verbatim>\<open>v?.k\<close> for the property names the source reads, none of which is
  a property of a string, a number, a boolean or an array: the value of the own property
  of an object, \<^verbatim>\<open>undefined\<close> for anything else. \<open>getProp v k\<close> is \<^verbatim>\<open>v.k\<close>, which throws
  a TypeError on \<^verbatim>\<open>null\<close> and \<^verbatim>\<open>undefined\<close>.
\<close>

definition field :: "jsval \<Rightarrow> string \<Rightarrow> jsval" where
  "field v k =
     (case v of
        JObj kvs \<Rightarrow> (case map_of kvs k of Some x \<Rightarrow> x | None \<Rightarrow> JUndef)
      | _ \<Rightarrow> JUndef)"

definition getProp :: "jsval \<Rightarrow> string \<Rightarrow> error + jsval" where
  "getProp v k = (if isNullish v then Inl TypeError else Inr (field v k))"

fun setField :: "(string \<times> jsval) list \<Rightarrow> string \<Rightarrow> jsval \<Rightarrow> (string \<times> jsval) list" where
  "setField [] k v = [(k, v)]"
| "setField ((k', v') # kvs) k v =
     (if k' = k then (k, v) # kvs else (k', v') # setField kvs k v)"

definition assign :: "jsval \<Rightarrow> string \<Rightarrow> jsval \<Rightarrow> jsval" where
  \<comment> \<open>\<^verbatim>\<open>o.k = v\<close>, for an object \<open>o\<close>\<close>
  "assign obj k v = (case obj of JObj kvs \<Rightarrow> JObj (setField kvs k v) | _ \<Rightarrow> obj)"

text \<open>Mapping a function that may throw over an array: the first throw ends it.\<close>

fun mapE :: "('a \<Rightarrow> error + 'b) \<Rightarrow> 'a list \<Rightarrow> error + 'b list" where
  "mapE f [] = Inr []"
| "mapE f (x # xs) =
     (case f x of
        Inl e \<Rightarrow> Inl e
      | Inr y \<Rightarrow> (case mapE f xs of Inl e \<Rightarrow> Inl e | Inr ys \<Rightarrow> Inr (y # ys)))"

text \<open>
  \<^verbatim>\<open>ToString\<close>, which \<^verbatim>\<open>Array.prototype.join\<close> applies to every element that is
  neither \<^verbatim>\<open>null\<close> nor \<^verbatim>\<open>undefined\<close>. An array is joined with commas. A decoded object
  has no callable property, so one with a \<^verbatim>\<open>toString\<close> of its own cannot be converted
  (TypeError); any other is \<^verbatim>\<open>[object Object]\<close>.
\<close>

fun toStr :: "jsval \<Rightarrow> error + string"
  and elemStrs :: "jsval list \<Rightarrow> error + string list" where
  "toStr JUndef = Inr ''undefined''"
| "toStr JNull = Inr ''null''"
| "toStr (JBool b) = Inr (if b then ''true'' else ''false'')"
| "toStr (JNum n) = Inr (numToString n)"
| "toStr (JStr s) = Inr s"
| "toStr (JArr xs) =
     (case elemStrs xs of Inl e \<Rightarrow> Inl e | Inr ss \<Rightarrow> Inr (join '','' ss))"
| "toStr (JObj kvs) =
     (if ''toString'' \<in> fst ` set kvs then Inl TypeError else Inr ''[object Object]'')"
| "elemStrs [] = Inr []"
| "elemStrs (x # xs) =
     (case (if x = JUndef \<or> x = JNull then Inr [] else toStr x) of
        Inl e \<Rightarrow> Inl e
      | Inr s \<Rightarrow> (case elemStrs xs of Inl e \<Rightarrow> Inl e | Inr ss \<Rightarrow> Inr (s # ss)))"

definition joinArray :: "string \<Rightarrow> jsval list \<Rightarrow> error + string" where
  \<comment> \<open>\<^verbatim>\<open>xs.join(sep)\<close>\<close>
  "joinArray sep xs =
     (case elemStrs xs of Inl e \<Rightarrow> Inl e | Inr ss \<Rightarrow> Inr (join sep ss))"

section \<open>Normalising a provider's payload\<close>

datatype ServerType = Java | Bedrock

definition typeName :: "ServerType \<Rightarrow> string" where
  "typeName t = (case t of Java \<Rightarrow> ''java'' | Bedrock \<Rightarrow> ''bedrock'')"

definition defaultPortOf :: "ServerType \<Rightarrow> int" where
  \<comment> \<open>\<^verbatim>\<open>serverType === 'java' ? 25565 : 19132\<close>\<close>
  "defaultPortOf t = (case t of Java \<Rightarrow> 25565 | Bedrock \<Rightarrow> 19132)"

text \<open>
  \<^verbatim>\<open>const [hostFromAddr, portStr] = address.split(':')\<close> and
  \<^verbatim>\<open>parseInt(portStr) || defaultPort\<close>: a missing second part is \<^verbatim>\<open>undefined\<close>, of which
  \<^verbatim>\<open>parseInt\<close> makes \<^verbatim>\<open>NaN\<close>; \<^verbatim>\<open>NaN\<close> and 0 are both replaced by the default port.
\<close>

definition hostFromAddr :: "string \<Rightarrow> string" where
  "hostFromAddr address = (case split (CHR '':'') address of [] \<Rightarrow> [] | h # _ \<Rightarrow> h)"

definition portStr :: "string \<Rightarrow> string option" where
  "portStr address = (case split (CHR '':'') address of _ # p # _ \<Rightarrow> Some p | _ \<Rightarrow> None)"

definition portFromAddr :: "string \<Rightarrow> ServerType \<Rightarrow> int" where
  "portFromAddr address t =
     (case (case portStr address of None \<Rightarrow> parseInt ''undefined'' | Some p \<Rightarrow> parseInt p) of
        None \<Rightarrow> defaultPortOf t
      | Some n \<Rightarrow> if n = 0 then defaultPortOf t else n)"

text \<open>
  The test of line 158,
  \<^verbatim>\<open>data.online === false || ['error', 'offline'].includes(data.status?.toLowerCase())\<close>.
  Reading a property of \<^verbatim>\<open>null\<close> throws, and so does calling \<^verbatim>\<open>toLowerCase\<close> on a status
  that is neither a string nor \<^verbatim>\<open>null\<close> or \<^verbatim>\<open>undefined\<close>.
\<close>

definition isOffline :: "jsval \<Rightarrow> error + bool" where
  "isOffline data =
     (if isNullish data then Inl TypeError
      else if field data ''online'' = JBool False then Inr True
      else (case field data ''status'' of
              JUndef \<Rightarrow> Inr False
            | JNull \<Rightarrow> Inr False
            | JStr s \<Rightarrow> Inr (toLowerCase s \<in> set [''error'', ''offline''])
            | _ \<Rightarrow> Inl TypeError))"

definition offlineStatus :: "jsval \<Rightarrow> string \<Rightarrow> ServerType \<Rightarrow> jsval" where
  "offlineStatus data address t =
     JObj [(''online'', JBool False),
           (''host'', JStr (hostFromAddr address)),
           (''port'', JNum (portFromAddr address t)),
           (''players'', JObj [(''online'', JNull), (''max'', JNull)]),
           (''error'', orElse (field data ''error'') (field data ''description''))]"

subsection \<open>Host and port of an online server\<close>

definition indexOf :: "char \<Rightarrow> string \<Rightarrow> int" where
  "indexOf c s = (if c \<in> set s then int (length (takeWhile (\<lambda>x. x \<noteq> c) s)) else - 1)"

definition lastIndexOf :: "char \<Rightarrow> string \<Rightarrow> int" where
  "lastIndexOf c s =
     (if c \<in> set s then int (length s) - 1 - int (length (takeWhile (\<lambda>x. x \<noteq> c) (rev s)))
      else - 1)"

text \<open>\<^verbatim>\<open>/^([^:]+):(\d+)$/\<close>; the result is the pair of the two groups.\<close>

definition matchHostPort :: "string \<Rightarrow> (string \<times> string) option" where
  "matchHostPort s =
     (let h = takeWhile (\<lambda>c. c \<noteq> CHR '':'') s
      in case dropWhile (\<lambda>c. c \<noteq> CHR '':'') s of
           [] \<Rightarrow> None
         | _ # p \<Rightarrow> if h \<noteq> [] \<and> p \<noteq> [] \<and> list_all isDigit p then Some (h, p) else None)"

text \<open>
  Lines 161 to 169: the result is the pair of \<^verbatim>\<open>finalHost\<close> and \<^verbatim>\<open>finalPort\<close>. When no
  port field is given, \<^verbatim>\<open>finalHost.match\<close> is called, which only a string has.
\<close>

definition finalHostPort :: "jsval \<Rightarrow> string \<Rightarrow> ServerType \<Rightarrow> error + jsval \<times> jsval" where
  "finalHostPort data address t =
     (let finalHost = orElse (orElse (orElse (field data ''hostname'') (field data ''host''))
                          (field data ''server'')) (JStr (hostFromAddr address));
          finalPort = coalesce (field data ''port'') (field data ''ipv6Port'')
      in if isNullish finalPort
         then (case finalHost of
                 JStr s \<Rightarrow>
                   (let ipv6Match = matchIpv6WithPort s;
                        hostPortMatch = (if lastIndexOf (CHR '':'') s > indexOf (CHR '':'') s
                                         then None else matchHostPort s)
                    in case (case ipv6Match of Some m \<Rightarrow> Some m | None \<Rightarrow> hostPortMatch) of
                         Some (h, p) \<Rightarrow> Inr (JStr h, JNum (int (digitsVal p)))
                       | None \<Rightarrow> Inr (finalHost, JNum (portFromAddr address t)))
               | _ \<Rightarrow> Inl TypeError)
         else Inr (finalHost, finalPort))"

subsection \<open>The other fields\<close>

definition processListData :: "jsval \<Rightarrow> jsval" where
  "processListData items =
     (case items of
        JArr xs \<Rightarrow> JArr (map (\<lambda>item. case item of JStr s \<Rightarrow> JObj [(''name'', item)] | _ \<Rightarrow> item) xs)
      | _ \<Rightarrow> JUndef)"

definition motdText :: "jsval \<Rightarrow> error + jsval" where
  "motdText data =
     (let motd = field data ''motd''
      in if \<not> truthy motd
         then Inr (orElse (field (field data ''description'') ''text'') (field data ''description''))
         else (case motd of
                 JStr s \<Rightarrow> Inr motd
               | JNum n \<Rightarrow> Inr JNull
               | JBool b \<Rightarrow> Inr JNull
               | _ \<Rightarrow>
                   (case orElse (field motd ''clean'') (field motd ''raw'') of
                      JArr lines \<Rightarrow>
                        (case joinArray [CHR 0x0A] lines of
                           Inl e \<Rightarrow> Inl e
                         | Inr s \<Rightarrow> Inr (JStr s))
                    | textArray \<Rightarrow> Inr textArray)))"

text \<open>
  \<^verbatim>\<open>xs?.map(f)\<close>: \<^verbatim>\<open>undefined\<close> when \<open>xs\<close> is \<^verbatim>\<open>null\<close> or \<^verbatim>\<open>undefined\<close>, the mapped
  array when it is an array, and a TypeError otherwise, as nothing else has a callable
  \<^verbatim>\<open>map\<close>.
\<close>

definition optMap :: "(jsval \<Rightarrow> error + jsval) \<Rightarrow> jsval \<Rightarrow> error + jsval" where
  "optMap f xs =
     (case xs of
        JUndef \<Rightarrow> Inr JUndef
      | JNull \<Rightarrow> Inr JUndef
      | JArr ys \<Rightarrow> (case mapE f ys of Inl e \<Rightarrow> Inl e | Inr zs \<Rightarrow> Inr (JArr zs))
      | _ \<Rightarrow> Inl TypeError)"

definition playerList :: "jsval \<Rightarrow> error + jsval" where
  "playerList data =
     (let players = field data ''players''
      in if truthy (field players ''list'') then Inr (field players ''list'')
         else (case optMap (\<lambda>p. getProp p ''name'') (field players ''sample'') of
                 Inl e \<Rightarrow> Inl e
               | Inr names \<Rightarrow>
                   if truthy names then Inr names
                   else Inr (if isArray players then players else field data ''player_list'')))"

definition playerName :: "jsval \<Rightarrow> error + jsval" where
  \<comment> \<open>\<^verbatim>\<open>p => (typeof p === 'string' ? p : p.name) || ''\<close>\<close>
  "playerName p =
     (case p of
        JStr s \<Rightarrow> Inr (orElse p (JStr []))
      | _ \<Rightarrow> (case getProp p ''name'' of Inl e \<Rightarrow> Inl e | Inr n \<Rightarrow> Inr (orElse n (JStr []))))"

definition normalizeApiResponse :: "jsval \<Rightarrow> string \<Rightarrow> ServerType \<Rightarrow> error + jsval" where
  "normalizeApiResponse data address t =
     (case isOffline data of
        Inl e \<Rightarrow> Inl e
      | Inr True \<Rightarrow> Inr (offlineStatus data address t)
      | Inr False \<Rightarrow>
     (case finalHostPort data address t of
        Inl e \<Rightarrow> Inl e
      | Inr (finalHost, finalPort) \<Rightarrow>
     (case motdText data of
        Inl e \<Rightarrow> Inl e
      | Inr motd \<Rightarrow>
     (case playerList data of
        Inl e \<Rightarrow> Inl e
      | Inr pl \<Rightarrow>
     (case optMap playerName pl of
        Inl e \<Rightarrow> Inl e
      | Inr names \<Rightarrow>
          Inr (JObj
            [(''online'', JBool True),
             (''host'', finalHost),
             (''port'', finalPort),
             (''ip_address'', orElse (field data ''ip_address'') (field data ''ip'')),
             (''eula_blocked'', field data ''eula_blocked''),
             (''motd'', motd),
             (''version'', JObj
                [(''name_clean'', coalesce (field (field data ''version'') ''name_clean'')
                                    (field data ''version'')),
                 (''name'', coalesce (field (field data ''version'') ''name'')
                              (field (field data ''protocol'') ''name''))]),
             (''players'', JObj
                [(''online'', coalesce (field (field data ''players'') ''online'')
                                (field (field data ''players'') ''now'')),
                 (''max'', field (field data ''players'') ''max''),
                 (''list'', names)]),
             (''icon'', orElse (field data ''icon'') (field data ''favicon'')),
             (''srv_record'', orElse (field data ''srv_record'') (field data ''srv'')),
             (''mods'', processListData
                (orElse (field data ''mods'') (field (field data ''modinfo'') ''modList''))),
             (''software'', field data ''software''),
             (''plugins'', processListData (field data ''plugins'')),
             (''gamemode'', field data ''gamemode''),
             (''server_id'', field data ''server_id''),
             (''edition'', orElse (field data ''edition'')
                (if t = Bedrock then JStr ''MCPE'' else JNull))]))))))"

subsection \<open>Payloads of the expected shape\<close>

text \<open>
  The shape of payload that \<^verbatim>\<open>normalizeApiResponse\<close> is written for: an object whose
  \<^verbatim>\<open>status\<close>, \<^verbatim>\<open>hostname\<close>, \<^verbatim>\<open>host\<close> and \<^verbatim>\<open>server\<close> are strings where they are given,
  whose MOTD lines are not themselves arrays or objects, whose player lists are arrays
  without \<^verbatim>\<open>null\<close> entries and whose player samples are arrays of entries with a name.
\<close>

definition nullishOrString :: "jsval \<Rightarrow> bool" where
  "nullishOrString v = (case v of JUndef \<Rightarrow> True | JNull \<Rightarrow> True | JStr _ \<Rightarrow> True | _ \<Rightarrow> False)"

definition plain :: "jsval \<Rightarrow> bool" where
  "plain v = (case v of JArr _ \<Rightarrow> False | JObj _ \<Rightarrow> False | _ \<Rightarrow> True)"

definition motdLines :: "jsval \<Rightarrow> bool" where
  "motdLines motd =
     (case orElse (field motd ''clean'') (field motd ''raw'') of
        JArr lines \<Rightarrow> list_all plain lines
      | _ \<Rightarrow> True)"

definition playerEntries :: "jsval \<Rightarrow> bool" where
  "playerEntries v =
     (case v of
        JUndef \<Rightarrow> True
      | JNull \<Rightarrow> True
      | JArr ps \<Rightarrow> list_all (\<lambda>p. \<not> isNullish p) ps
      | _ \<Rightarrow> False)"

definition namedEntries :: "jsval \<Rightarrow> bool" where
  "namedEntries v =
     (case v of
        JUndef \<Rightarrow> True
      | JNull \<Rightarrow> True
      | JArr ps \<Rightarrow> list_all (\<lambda>p. \<not> isNullish (field p ''name'')) ps
      | _ \<Rightarrow> False)"

definition playersArray :: "jsval \<Rightarrow> bool" where
  \<comment> \<open>a \<^verbatim>\<open>players\<close> field that is itself the list\<close>
  "playersArray v = (case v of JArr ps \<Rightarrow> list_all (\<lambda>p. \<not> isNullish p) ps | _ \<Rightarrow> True)"

definition expectedShape :: "jsval \<Rightarrow> bool" where
  "expectedShape data =
     (\<not> isNullish data \<and>
      nullishOrString (field data ''status'') \<and>
      nullishOrString (field data ''hostname'') \<and>
      nullishOrString (field data ''host'') \<and>
      nullishOrString (field data ''server'') \<and>
      motdLines (field data ''motd'') \<and>
      playerEntries (field (field data ''players'') ''list'') \<and>
      namedEntries (field (field data ''players'') ''sample'') \<and>
      playersArray (field data ''players'') \<and>
      playerEntries (field data ''player_list''))"

section \<open>Querying the providers\<close>

text \<open>
  Modelled from the spec: the declaration of \<^verbatim>\<open>Config\<close> (\<^verbatim>\<open>../index\<close>) is not among
  the sources; these are the fields this file reads, an endpoint being a URL template
  tagged with the server family it answers for.
\<close>

record ServerApi =
  api_type :: string
  api_url :: string

record Config =
  serverApis :: "ServerApi list option"
  serverTemplate :: string

text \<open>
  What the network does is a parameter. \<open>fetch env apiUrl address\<close> is the answer to
  the request for \<^verbatim>\<open>apiUrl.replace('${address}', address)\<close>: no answer at all, or a
  response with its \<^verbatim>\<open>ok\<close> flag and the value its body decodes to, if it does.
  \<open>settleOrder env\<close> lists the requests, by their index, in the order in which they
  settle; one that is not listed never settles. \<open>pingServer env\<close> is the latency probe,
  which gives a latency or \<open>-1\<close>, or throws.
\<close>

datatype response = NetworkError | Response bool "jsval option"

datatype 'a settled = Fulfilled 'a | Rejected

record Env =
  fetch :: "string \<Rightarrow> string \<Rightarrow> response"
  settleOrder :: "nat list"
  pingServer :: "jsval \<Rightarrow> jsval \<Rightarrow> ServerType \<Rightarrow> error + int"

definition request :: "response \<Rightarrow> jsval settled" where
  \<comment> \<open>\<^verbatim>\<open>fetch(...).then(res => res.ok ? res.json() : Promise.reject(...))\<close>\<close>
  "request r =
     (case r of
        NetworkError \<Rightarrow> Rejected
      | Response ok body \<Rightarrow>
          if ok then (case body of Some d \<Rightarrow> Fulfilled d | None \<Rightarrow> Rejected) else Rejected)"

text \<open>
  \<^verbatim>\<open>Promise.allSettled\<close>: every promise that settles writes its outcome into the slot of
  its own index, and the array of outcomes is delivered once no slot is empty. \<open>None\<close>
  says that this never happens.
\<close>

definition settle :: "'a settled list \<Rightarrow> 'a settled option list \<Rightarrow> nat \<Rightarrow> 'a settled option list" where
  "settle outcomes slots i =
     (if i < length outcomes then slots[i := Some (outcomes ! i)] else slots)"

definition allSettled :: "nat list \<Rightarrow> 'a settled list \<Rightarrow> 'a settled list option" where
  "allSettled order outcomes =
     (let slots = foldl (settle outcomes) (replicate (length outcomes) None) order
      in if list_all (\<lambda>s. s \<noteq> None) slots then Some (map the slots) else None)"

definition isFulfilled :: "'a settled \<Rightarrow> bool" where
  "isFulfilled r = (case r of Fulfilled _ \<Rightarrow> True | Rejected \<Rightarrow> False)"

definition successfulData :: "jsval settled list \<Rightarrow> jsval" where
  \<comment> \<open>\<^verbatim>\<open>apiResults.find(r => r.status === 'fulfilled')?.value\<close>\<close>
  "successfulData apiResults =
     (case find isFulfilled apiResults of Some (Fulfilled v) \<Rightarrow> v | _ \<Rightarrow> JUndef)"

definition apiEndpoints :: "Config option \<Rightarrow> ServerType \<Rightarrow> string list" where
  \<comment> \<open>\<^verbatim>\<open>config?.serverApis?.filter(api => api.type === serverType)?.map(api => api.url) || []\<close>\<close>
  "apiEndpoints config t =
     (case config of
        None \<Rightarrow> []
      | Some c \<Rightarrow>
          (case serverApis c of
             None \<Rightarrow> []
           | Some apis \<Rightarrow> map api_url (filter (\<lambda>api. api_type api = typeName t) apis)))"

definition apiResults :: "Env \<Rightarrow> string list \<Rightarrow> string \<Rightarrow> jsval settled list option" where
  "apiResults env urls address =
     allSettled (settleOrder env) (map (\<lambda>apiUrl. request (fetch env apiUrl address)) urls)"

text \<open>
  The two fixed messages of the source, the one of line 128 (it reads: invalid address)
  and the one of line 144 (it reads: query failed), as their UTF-8 bytes.
\<close>

definition invalidAddress :: string where
  "invalidAddress =
     [CHR 0xE6, CHR 0x97, CHR 0xA0, CHR 0xE6, CHR 0x95, CHR 0x88,
      CHR 0xE5, CHR 0x9C, CHR 0xB0, CHR 0xE5, CHR 0x9D, CHR 0x80]"

definition queryFailed :: string where
  "queryFailed =
     [CHR 0xE6, CHR 0x9F, CHR 0xA5, CHR 0xE8, CHR 0xAF, CHR 0xA2,
      CHR 0xE5, CHR 0xA4, CHR 0xB1, CHR 0xE8, CHR 0xB4, CHR 0xA5]"

definition failedStatus :: "Address \<Rightarrow> string \<Rightarrow> jsval" where
  "failedStatus a msg =
     JObj [(''online'', JBool False),
           (''host'', JStr (host a)),
           (''port'', JNum (port a)),
           (''players'', JObj [(''online'', JNull), (''max'', JNull)]),
           (''error'', JStr msg)]"

text \<open>
  \<^verbatim>\<open>fetchServerStatus\<close>. \<open>None\<close>: the promise never settles; \<open>Some (Inl e)\<close>: it is
  rejected; \<open>Some (Inr status)\<close>: it is fulfilled with \<open>status\<close>. The empty string passes
  \<^verbatim>\<open>validateServerAddress\<close> and fails \<^verbatim>\<open>if (!address)\<close> like \<^verbatim>\<open>null\<close>.
\<close>

definition fetchServerStatus ::
  "Env \<Rightarrow> string \<Rightarrow> ServerType \<Rightarrow> Config option \<Rightarrow> (error + jsval) option" where
  "fetchServerStatus env server forceType config =
     (let serverType = forceType;
          defaultPort = defaultPortOf serverType
      in case (case validateServerAddress server of
                 None \<Rightarrow> None
               | Some a \<Rightarrow> if a = [] then None else Some a) of
           None \<Rightarrow> Some (Inr (failedStatus (parseServerAddress server defaultPort) invalidAddress))
         | Some address \<Rightarrow>
             (case apiResults env (apiEndpoints config serverType) address of
                None \<Rightarrow> None
              | Some results \<Rightarrow>
                  (let failed = failedStatus (parseServerAddress address defaultPort) queryFailed;
                       data = successfulData results
                   in if truthy data
                      then (case normalizeApiResponse data address serverType of
                              Inl e \<Rightarrow> Some (Inl e)
                            | Inr status \<Rightarrow>
                                if truthy (field status ''online'')
                                then (case pingServer env (field status ''host'')
                                             (field status ''port'') serverType of
                                        Inl e \<Rightarrow> Some (Inl e)
                                      | Inr ms \<Rightarrow> Some (Inr (assign status ''ping'' (JNum ms))))
                                else Some (Inr failed))
                      else Some (Inr failed))))"

subsection \<open>An example query\<close>

text \<open>
  One Java endpoint is configured, every request is answered, and the provider reports
  the server offline with a message of its own.
\<close>

definition exampleConfig :: Config where
  "exampleConfig =
     \<lparr>serverApis = Some [\<lparr>api_type = ''java'', api_url = ''https://api.example.org/${address}''\<rparr>],
      serverTemplate = ''{name}''\<rparr>"

definition offlinePayload :: jsval where
  "offlinePayload = JObj [(''online'', JBool False), (''error'', JStr ''Connection refused'')]"

definition exampleEnv :: Env where
  "exampleEnv =
     \<lparr>fetch = (\<lambda>apiUrl address. Response True (Some offlinePayload)),
      settleOrder = [0],
      pingServer = (\<lambda>h p t. Inr 42)\<rparr>"

text \<open>A payload of the expected shape, as a provider answers for a server that is up.\<close>

definition onlinePayload :: jsval where
  "onlinePayload =
     JObj [(''hostname'', JStr ''mc.example.com''),
           (''port'', JNum 25565),
           (''version'', JStr ''1.20.4''),
           (''motd'', JObj [(''clean'', JArr [JStr ''Hello'', JStr ''World''])]),
           (''players'', JObj [(''online'', JNum 5), (''max'', JNum 20),
                              (''sample'', JArr [JObj [(''name'', JStr ''Steve'')]])])]"

section \<open>Rendering a status\<close>

text \<open>
  \<^verbatim>\<open>formatServerStatus\<close> takes a \<^verbatim>\<open>ServerStatus\<close> as the interface declares it. A field
  that may be left out or \<^verbatim>\<open>null\<close> is an option, \<open>None\<close> standing for both: the renderer
  never tells them apart. \<open>host\<close> and \<open>port\<close> are the fields of \<open>Address\<close>; the fields of
  the nested objects carry a prefix where their names are taken.
\<close>

record NamedItem =
  item_name :: string
  item_version :: "string option"

record Version =
  name_clean :: "string option"
  version_name :: "string option"

record Players =
  players_online :: "int option"
  players_max :: "int option"
  players_list :: "string list option"

datatype Edition = MCPE | MCEE

record ServerStatus = Address +
  online :: bool
  ip_address :: "string option"
  eula_blocked :: "bool option"
  ping :: "int option"
  version :: "Version option"
  players :: Players
  motd :: "string option"
  icon :: "string option"
  mods :: "NamedItem list option"
  software :: "string option"
  plugins :: "NamedItem list option"
  srv_record :: "Address option"
  gamemode :: "string option"
  server_id :: "string option"
  edition :: "Edition option"
  error :: "string option"

text \<open>
  The labels of the source for a Bedrock edition, an Education edition and a blocked
  server (lines 231 and 233), as their UTF-8 bytes.
\<close>

definition bedrockLabel :: string where
  "bedrockLabel = [CHR 0xE5, CHR 0x9F, CHR 0xBA, CHR 0xE5, CHR 0xB2, CHR 0xA9, CHR 0xE7, CHR 0x89, CHR 0x88]"

definition educationLabel :: string where
  "educationLabel = [CHR 0xE6, CHR 0x95, CHR 0x99, CHR 0xE8, CHR 0x82, CHR 0xB2, CHR 0xE7, CHR 0x89, CHR 0x88]"

definition yesLabel :: string where
  "yesLabel = [CHR 0xE6, CHR 0x98, CHR 0xAF]"

text \<open>
  \<^verbatim>\<open>formatList\<close>. The limit is \<^verbatim>\<open>undefined\<close> (\<open>None\<close>) or what \<^verbatim>\<open>parseInt\<close> made of the
  digits of the placeholder; 0 counts as no limit in both tests.
\<close>

definition itemText :: "NamedItem \<Rightarrow> string" where
  \<comment> \<open>\<^verbatim>\<open>item => item.version ? `${item.name}-${item.version}` : item.name\<close>\<close>
  "itemText item =
     (case item_version item of
        None \<Rightarrow> item_name item
      | Some v \<Rightarrow> if v = [] then item_name item else item_name item @ ''-'' @ v)"

definition formatList :: "NamedItem list option \<Rightarrow> nat option \<Rightarrow> string option" where
  "formatList list limit =
     (case list of
        None \<Rightarrow> None
      | Some xs \<Rightarrow>
          if length xs = 0 then None
          else
            (let lim = (case limit of None \<Rightarrow> 0 | Some l \<Rightarrow> l);
                 limitedList = take (if lim = 0 then length xs else lim) xs;
                 text = join '', '' (map itemText limitedList)
             in Some (if lim \<noteq> 0 \<and> lim < length xs then text @ ''...'' else text)))"

text \<open>
  \<^verbatim>\<open>getValue\<close>, the cases in the order of the \<^verbatim>\<open>switch\<close>. \<open>img\<close> stands for
  \<^verbatim>\<open>h.image(...).toString()\<close> of the host framework, which is not part of the sources.
\<close>

definition getValue :: "(string \<Rightarrow> string) \<Rightarrow> ServerStatus \<Rightarrow> string \<Rightarrow> nat option \<Rightarrow> string option" where
  "getValue img status name limit =
     (if name = ''name'' then
        Some (if port status = 25565 \<or> port status = 19132 then host status
              else host status @ '':'' @ numToString (port status))
      else if name = ''ip'' then ip_address status
      else if name = ''srv'' then
        (case srv_record status of
           None \<Rightarrow> None
         | Some srv \<Rightarrow> Some (host srv @ '':'' @ numToString (port srv)))
      else if name = ''icon'' then
        (case icon status of
           None \<Rightarrow> None
         | Some i \<Rightarrow> if startsWith i ''data:image/png;base64,'' then Some (img i) else None)
      else if name = ''motd'' then motd status
      else if name = ''version'' then
        (case version status of None \<Rightarrow> None | Some v \<Rightarrow> name_clean v)
      else if name = ''online'' then map_option numToString (players_online (players status))
      else if name = ''max'' then map_option numToString (players_max (players status))
      else if name = ''ping'' then
        (case ping status of
           None \<Rightarrow> None
         | Some ms \<Rightarrow> if ms \<noteq> - 1 then Some (numToString ms @ ''ms'') else None)
      else if name = ''software'' then software status
      else if name = ''edition'' then
        (case edition status of
           None \<Rightarrow> None
         | Some MCPE \<Rightarrow> Some bedrockLabel
         | Some MCEE \<Rightarrow> Some educationLabel)
      else if name = ''gamemode'' then gamemode status
      else if name = ''eulablock'' then
        (if eula_blocked status = Some True then Some yesLabel else None)
      else if name = ''serverid'' then server_id status
      else if name = ''playercount'' then
        map_option (\<lambda>l. numToString (int (length l))) (players_list (players status))
      else if name = ''plugincount'' then
        map_option (\<lambda>l. numToString (int (length l))) (plugins status)
      else if name = ''modcount'' then
        map_option (\<lambda>l. numToString (int (length l))) (mods status)
      else if name = ''playerlist'' then
        formatList (map_option (map (\<lambda>n. \<lparr>item_name = n, item_version = None\<rparr>))
                      (players_list (players status))) limit
      else if name = ''pluginlist'' then formatList (plugins status) limit
      else if name = ''modlist'' then formatList (mods status) limit
      else None)"

subsection \<open>Placeholders\<close>

text \<open>
  \<^verbatim>\<open>/\{([^{}:]+)(?::(\d+))?\}/g\<close>. \<open>matchAt s\<close> is the match that starts at the first
  character of \<open>s\<close>, if there is one: the name, the digits of the limit if a limit is
  given, and what follows the match. The name is the longest run of characters other
  than braces and colons, after which only \<^verbatim>\<open>}\<close> or \<^verbatim>\<open>:\<close>, digits and \<^verbatim>\<open>}\<close> complete
  the match.
\<close>

definition nameChar :: "char \<Rightarrow> bool" where
  "nameChar c = (c \<noteq> CHR ''{'' \<and> c \<noteq> CHR ''}'' \<and> c \<noteq> CHR '':'')"

definition matchAt :: "string \<Rightarrow> (string \<times> string option \<times> string) option" where
  "matchAt s =
     (case s of
        [] \<Rightarrow> None
      | c # r \<Rightarrow>
          if c \<noteq> CHR ''{'' \<or> takeWhile nameChar r = [] then None
          else
            (case dropWhile nameChar r of
               [] \<Rightarrow> None
             | d # r' \<Rightarrow>
                 if d = CHR ''}'' then Some (takeWhile nameChar r, None, r')
                 else if d = CHR '':'' \<and> takeWhile isDigit r' \<noteq> [] then
                   (case dropWhile isDigit r' of
                      [] \<Rightarrow> None
                    | e # r'' \<Rightarrow>
                        if e = CHR ''}''
                        then Some (takeWhile nameChar r, Some (takeWhile isDigit r'), r'')
                        else None)
                 else None))"

datatype token = Lit char | Hole string "string option"

text \<open>
  The matches of a line from left to right, with the characters between them:
  \<open>scan k s\<close> reads \<open>s\<close> after skipping the \<open>k\<close> characters that are left of the last
  match.
\<close>

fun scan :: "nat \<Rightarrow> string \<Rightarrow> token list" where
  "scan k [] = []"
| "scan (Suc k) (c # r) = scan k r"
| "scan 0 (c # r) =
     (case matchAt (c # r) of
        None \<Rightarrow> Lit c # scan 0 r
      | Some (name, limit, rest) \<Rightarrow> Hole name limit # scan (length r - length rest) r)"

definition placeholders :: "string \<Rightarrow> (string \<times> string option) list" where
  \<comment> \<open>\<^verbatim>\<open>[...line.matchAll(...)]\<close>, each match as its two groups\<close>
  "placeholders line =
     concat (map (\<lambda>t. case t of Lit c \<Rightarrow> [] | Hole name limit \<Rightarrow> [(name, limit)]) (scan 0 line))"

definition replaceAll :: "(string \<Rightarrow> string option \<Rightarrow> string) \<Rightarrow> string \<Rightarrow> string" where
  \<comment> \<open>\<^verbatim>\<open>line.replace(..., (match, name, limitStr) => ...)\<close>\<close>
  "replaceAll f line =
     concat (map (\<lambda>t. case t of Lit c \<Rightarrow> [c] | Hole name limit \<Rightarrow> f name limit) (scan 0 line))"

definition limitOf :: "string option \<Rightarrow> nat option" where
  \<comment> \<open>\<^verbatim>\<open>limitStr ? parseInt(limitStr) : undefined\<close>, for a run of digits\<close>
  "limitOf limitStr = map_option digitsVal limitStr"

definition isEmptyValue :: "string option \<Rightarrow> bool" where
  \<comment> \<open>\<^verbatim>\<open>!v\<close>\<close>
  "isEmptyValue v = (case v of None \<Rightarrow> True | Some s \<Rightarrow> s = [])"

definition renderLine :: "(string \<Rightarrow> string) \<Rightarrow> ServerStatus \<Rightarrow> string \<Rightarrow> string" where
  "renderLine img status line =
     (if placeholders line \<noteq> [] \<and>
         list_all (\<lambda>(name, limit). isEmptyValue (getValue img status name (limitOf limit)))
           (placeholders line)
      then []
      else replaceAll
             (\<lambda>name limit. case getValue img status name (limitOf limit) of
                              None \<Rightarrow> []
                            | Some v \<Rightarrow> v)
             line)"

text \<open>
  \<^verbatim>\<open>.replace(/\n{3,}/g, '\n\n')\<close>: \<open>collapse n s\<close> reads \<open>s\<close> with \<open>n\<close> line feeds of the
  current run already read; a run of three or more is written as two.
\<close>

definition newline :: char where
  "newline = CHR 0x0A"

fun collapse :: "nat \<Rightarrow> string \<Rightarrow> string" where
  "collapse n [] = replicate (if 3 \<le> n then 2 else n) newline"
| "collapse n (c # r) =
     (if c = newline then collapse (Suc n) r
      else replicate (if 3 \<le> n then 2 else n) newline @ c # collapse 0 r)"

definition formatServerStatus :: "(string \<Rightarrow> string) \<Rightarrow> ServerStatus \<Rightarrow> Config \<Rightarrow> string option" where
  "formatServerStatus img status config =
     (if \<not> online status then error status
      else Some (trim (collapse 0 (join [newline]
             (filter (\<lambda>line. length (trim line) > 0)
                (map (renderLine img status) (split newline (serverTemplate config))))))))"

subsection \<open>An example status\<close>

definition exampleStatus :: ServerStatus where
  "exampleStatus =
     \<lparr>host = ''mc.example.com'', port = 25565, online = True, ip_address = None,
      eula_blocked = None, ping = None, version = None,
      players = \<lparr>players_online = Some 5, players_max = Some 20, players_list = None\<rparr>,
      motd = Some [CHR ''x'', newline, newline, newline, newline, CHR ''y''],
      icon = None, mods = None, software = None,
      plugins = None, srv_record = None, gamemode = None, server_id = None, edition = None,
      error = None\<rparr>"

definition template :: "string \<Rightarrow> Config" where
  "template t = \<lparr>serverApis = None, serverTemplate = t\<rparr>"

subsection \<open>Runs of line feeds\<close>


section \<open>Properties of address validation and parsing\<close>




























text \<open>
  C2. The claim: \<^verbatim>\<open>validate\<close> rejects exactly the listed private, loopback and
  reserved hosts and the out-of-range ports; a public host name that merely begins with
  the letter d or f, such as \<^verbatim>\<open>demo.example.com\<close>, is accepted. The pattern
  \<^verbatim>\<open>/^[fd]/\<close> of the source holds of every address whose first letter is d or f, so
  these public names are rejected.
\<close>

theorem validateServerAddress_rejects_public_name:
  "validateServerAddress ''demo.example.com'' = None \<and>
   validateServerAddress ''Fun.example.org:25565'' = None \<and>
   validateServerAddress ''mc.example.com:25565'' = Some ''mc.example.com:25565''"
  by (simp add: validateServerAddress_def toLowerCase_def lowerChar_def FORBIDDEN_PATTERNS_def
      startsWith_def private172_def afterLast_def parseInt10_def stripSign_def isSpace_def
      isDigit_def signed_def digitsVal_def digitVal_def)



section \<open>Properties of the normalised record\<close>

lemma normalize_offline:
  "isOffline data = Inr True \<Longrightarrow>
   normalizeApiResponse data address t = Inr (offlineStatus data address t)"
  by (simp add: normalizeApiResponse_def)

lemma offline_is_object: "isOffline data = Inr True \<Longrightarrow> \<exists>kvs. data = JObj kvs"
  by (cases data) (auto simp: isOffline_def isNullish_def field_def split: if_splits)













lemma parseInt_undefined: "parseInt ''undefined'' = None"
  by (simp add: parseInt_def stripSign_def isSpace_def startsWith_def isDigit_def)

lemma field_offline:
  "field (offlineStatus data address t) ''online'' = JBool False"
  "field (offlineStatus data address t) ''host'' = JStr (hostFromAddr address)"
  "field (offlineStatus data address t) ''port'' = JNum (portFromAddr address t)"
  "field (offlineStatus data address t) ''players'' = JObj [(''online'', JNull), (''max'', JNull)]"
  "field (offlineStatus data address t) ''error'' =
     orElse (field data ''error'') (field data ''description'')"
  "field (offlineStatus data address t) ''edition'' = JUndef"
  by (simp_all add: offlineStatus_def field_def)

text \<open>
  C6. The claim: the record of a payload classified offline has \<^verbatim>\<open>players.online = null\<close>,
  \<^verbatim>\<open>players.max = null\<close> and a non-empty \<^verbatim>\<open>error\<close>, even when the payload has neither an
  \<^verbatim>\<open>error\<close> nor a \<^verbatim>\<open>description\<close>. As amended: both player counts are \<^verbatim>\<open>null\<close>, and
  \<^verbatim>\<open>error\<close> is the payload's \<^verbatim>\<open>error\<close> when that is truthy and its \<^verbatim>\<open>description\<close>
  otherwise; so it is non-empty exactly when the payload gives a truthy \<^verbatim>\<open>error\<close> or
  \<^verbatim>\<open>description\<close>, and absent when it gives neither.
\<close>

theorem normalize_offline_players_error:
  assumes "isOffline data = Inr True"
  shows "\<exists>r. normalizeApiResponse data address t = Inr r \<and>
           field r ''online'' = JBool False \<and>
           field (field r ''players'') ''online'' = JNull \<and>
           field (field r ''players'') ''max'' = JNull \<and>
           field r ''error'' = orElse (field data ''error'') (field data ''description'') \<and>
           (truthy (field r ''error'') \<longleftrightarrow>
              truthy (field data ''error'') \<or> truthy (field data ''description''))"
proof -
  have "truthy (orElse a b) \<longleftrightarrow> truthy a \<or> truthy b" for a b
    by (simp add: orElse_def)
  then show ?thesis
    using normalize_offline [OF assms, of address t]
    by (simp add: field_offline) (simp add: field_def)
qed

text \<open>The theorem at a payload that is offline and says why.\<close>

theorem normalize_offline_players_error_witness:
  "\<exists>r. normalizeApiResponse offlinePayload ''mc.example.com'' Java = Inr r \<and>
           field r ''online'' = JBool False \<and>
           field (field r ''players'') ''online'' = JNull \<and>
           field (field r ''players'') ''max'' = JNull \<and>
           field r ''error'' = JStr ''Connection refused''"
proof -
  have o: "isOffline offlinePayload = Inr True"
    by (simp add: isOffline_def offlinePayload_def isNullish_def field_def)
  have e: "orElse (field offlinePayload ''error'') (field offlinePayload ''description'') =
      JStr ''Connection refused''"
    by (simp add: offlinePayload_def field_def orElse_def truthy_def)
  show ?thesis
    using normalize_offline_players_error [OF o, of "''mc.example.com''" Java]
    unfolding e by blast
qed

text \<open>
  C6, as stated, fails at the payload \<^verbatim>\<open>{"online": false}\<close>: the record has no \<^verbatim>\<open>error\<close>.
\<close>

theorem normalize_offline_error_absent:
  "isOffline (JObj [(''online'', JBool False)]) = Inr True \<and>
   normalizeApiResponse (JObj [(''online'', JBool False)]) ''mc.example.com'' Java =
     Inr (JObj [(''online'', JBool False),
                (''host'', JStr ''mc.example.com''),
                (''port'', JNum 25565),
                (''players'', JObj [(''online'', JNull), (''max'', JNull)]),
                (''error'', JUndef)])"
  by (simp add: normalizeApiResponse_def isOffline_def isNullish_def field_def offlineStatus_def
      hostFromAddr_def portFromAddr_def portStr_def parseInt_undefined defaultPortOf_def
      orElse_def truthy_def)




lemma field_online_record:
  "field (JObj [(''online'', a1), (''host'', a2), (''port'', a3), (''ip_address'', a4),
     (''eula_blocked'', a5), (''motd'', a6), (''version'', a7), (''players'', a8),
     (''icon'', a9), (''srv_record'', a10), (''mods'', a11), (''software'', a12),
     (''plugins'', a13), (''gamemode'', a14), (''server_id'', a15), (''edition'', a16)])
     ''edition'' = a16"
  by (simp add: field_def)

text \<open>
  C7. The claim: under the Java family the \<^verbatim>\<open>edition\<close> of the record is absent, neither a
  value nor \<^verbatim>\<open>null\<close>; under the Bedrock family it defaults to the Bedrock tag. As
  amended: in the record of a payload that is not offline, \<^verbatim>\<open>edition\<close> is the payload's
  \<^verbatim>\<open>edition\<close> when that is truthy, whatever the family, and otherwise \<^verbatim>\<open>MCPE\<close> under
  Bedrock and \<^verbatim>\<open>null\<close> under Java; it is absent only from the record of an offline
  payload.
\<close>

theorem normalize_edition:
  assumes "normalizeApiResponse data address t = Inr r"
  shows "(isOffline data = Inr True \<longrightarrow> field r ''edition'' = JUndef) \<and>
         (isOffline data = Inr False \<longrightarrow>
            field r ''edition'' =
              (if truthy (field data ''edition'') then field data ''edition''
               else if t = Bedrock then JStr ''MCPE'' else JNull))"
proof (intro conjI impI)
  assume "isOffline data = Inr True"
  with assms show "field r ''edition'' = JUndef"
    by (auto simp: normalizeApiResponse_def field_offline)
next
  assume "isOffline data = Inr False"
  with assms show "field r ''edition'' =
              (if truthy (field data ''edition'') then field data ''edition''
               else if t = Bedrock then JStr ''MCPE'' else JNull)"
    unfolding normalizeApiResponse_def
    by (auto split: sum.splits prod.splits simp: field_online_record orElse_def)
qed

lemma elemStrs_plain: "list_all plain xs \<Longrightarrow> \<exists>ss. elemStrs xs = Inr ss"
proof (induction xs)
  case Nil
  then show ?case by simp
next
  case (Cons x xs)
  then obtain ss where ss: "elemStrs xs = Inr ss" by auto
  from Cons.prems have "plain x" by simp
  then have "\<exists>s. (if x = JUndef \<or> x = JNull then Inr [] else toStr x) = Inr s"
    by (cases x) (auto simp: plain_def)
  then show ?case using ss by auto
qed

lemma mapE_names:
  "list_all (\<lambda>p. \<not> isNullish (field p ''name'')) ps \<Longrightarrow>
   mapE (\<lambda>p. getProp p ''name'') ps = Inr (map (\<lambda>p. field p ''name'') ps)"
proof (induction ps)
  case Nil
  then show ?case by simp
next
  case (Cons p ps)
  from Cons.prems have "\<not> isNullish (field p ''name'')" by simp
  then have "\<not> isNullish p" by (auto simp: isNullish_def field_def)
  then have "getProp p ''name'' = Inr (field p ''name'')" by (simp add: getProp_def)
  with Cons show ?case by simp
qed

lemma playerName_ok: "\<not> isNullish p \<Longrightarrow> \<exists>n. playerName p = Inr n"
  by (cases p) (auto simp: playerName_def getProp_def isNullish_def)

lemma mapE_playerName:
  "list_all (\<lambda>p. \<not> isNullish p) ps \<Longrightarrow> \<exists>zs. mapE playerName ps = Inr zs"
proof (induction ps)
  case Nil
  then show ?case by simp
next
  case (Cons p ps)
  then obtain zs where "mapE playerName ps = Inr zs" by auto
  moreover from Cons.prems obtain n where "playerName p = Inr n"
    using playerName_ok [of p] by auto
  ultimately show ?case by simp
qed

lemma optMap_playerName:
  "playerEntries pl \<Longrightarrow> \<exists>names. optMap playerName pl = Inr names"
proof (cases pl)
  case (JArr ps)
  assume "playerEntries pl"
  with JArr have "list_all (\<lambda>p. \<not> isNullish p) ps" by (simp add: playerEntries_def)
  from mapE_playerName [OF this] JArr show ?thesis by (auto simp: optMap_def)
qed (auto simp: optMap_def playerEntries_def)

lemma isOffline_shape: "expectedShape data \<Longrightarrow> \<exists>b. isOffline data = Inr b"
  by (cases "field data ''status''")
     (auto simp: expectedShape_def isOffline_def nullishOrString_def)

lemma truthy_string: "nullishOrString v \<Longrightarrow> truthy v \<Longrightarrow> \<exists>s. v = JStr s"
  by (cases v) (auto simp: nullishOrString_def truthy_def)

lemma finalHostPort_shape:
  assumes "expectedShape data"
  shows "\<exists>hp. finalHostPort data address t = Inr hp"
proof -
  let ?h = "orElse (orElse (orElse (field data ''hostname'') (field data ''host''))
                          (field data ''server'')) (JStr (hostFromAddr address))"
  from assms have "nullishOrString (field data ''hostname'')" "nullishOrString (field data ''host'')"
    "nullishOrString (field data ''server'')" by (simp_all add: expectedShape_def)
  then have "\<exists>s. ?h = JStr s"
    using truthy_string [of "field data ''hostname''"] truthy_string [of "field data ''host''"]
      truthy_string [of "field data ''server''"]
    by (auto simp: orElse_def)
  then obtain s where s: "?h = JStr s" by blast
  show ?thesis
    unfolding finalHostPort_def Let_def s
    by (auto split: option.splits)
qed

lemma motdText_shape:
  assumes "expectedShape data"
  shows "\<exists>m. motdText data = Inr m"
proof -
  from assms have l: "motdLines (field data ''motd'')" by (simp add: expectedShape_def)
  show ?thesis
  proof (cases "orElse (field (field data ''motd'') ''clean'') (field (field data ''motd'') ''raw'')")
    case (JArr lines)
    with l have "list_all plain lines" by (simp add: motdLines_def)
    from elemStrs_plain [OF this] obtain ss where "elemStrs lines = Inr ss" by blast
    then have "joinArray [CHR 0x0A] lines = Inr (join [CHR 0x0A] ss)" by (simp add: joinArray_def)
    with JArr show ?thesis
      by (cases "field data ''motd''") (auto simp: motdText_def Let_def)
  qed (cases "field data ''motd''"; auto simp: motdText_def Let_def)+
qed

lemma playerList_shape:
  assumes "expectedShape data"
  shows "\<exists>pl. playerList data = Inr pl \<and> playerEntries pl"
proof -
  let ?players = "field data ''players''"
  from assms have a: "playerEntries (field ?players ''list'')"
    and b: "namedEntries (field ?players ''sample'')"
    and c: "playersArray ?players"
    and d: "playerEntries (field data ''player_list'')"
    by (simp_all add: expectedShape_def)
  show ?thesis
  proof (cases "truthy (field ?players ''list'')")
    case True
    with a show ?thesis by (simp add: playerList_def)
  next
    case False
    have third: "playerEntries (if isArray ?players then ?players else field data ''player_list'')"
      using c d by (cases ?players) (auto simp: isArray_def playersArray_def playerEntries_def)
    show ?thesis
    proof (cases "field ?players ''sample''")
      case (JArr ps)
      with b have n: "list_all (\<lambda>p. \<not> isNullish (field p ''name'')) ps"
        by (simp add: namedEntries_def)
      then have "playerEntries (JArr (map (\<lambda>p. field p ''name'') ps))"
        by (simp add: playerEntries_def list_all_iff)
      with False JArr mapE_names [OF n] show ?thesis
        by (simp add: playerList_def optMap_def truthy_def)
    qed (use b False third in \<open>auto simp: playerList_def optMap_def namedEntries_def truthy_def Let_def\<close>)
  qed
qed

lemma expectedShape_normalizes:
  assumes "expectedShape data"
  shows "\<exists>r. normalizeApiResponse data address t = Inr r"
proof -
  from isOffline_shape [OF assms] obtain b where b: "isOffline data = Inr b" by blast
  from finalHostPort_shape [OF assms] obtain h p where hp: "finalHostPort data address t = Inr (h, p)"
    by (metis surj_pair)
  from motdText_shape [OF assms] obtain m where m: "motdText data = Inr m" by blast
  from playerList_shape [OF assms] obtain pl where pl: "playerList data = Inr pl" "playerEntries pl"
    by blast
  from optMap_playerName [OF pl(2)] obtain names where n: "optMap playerName pl = Inr names" by blast
  show ?thesis
    by (cases b) (simp_all add: normalizeApiResponse_def b hp m pl(1) n)
qed

text \<open>
  C3. The claim: \<^verbatim>\<open>normalizeApiResponse\<close> returns a record, without throwing, on every
  payload of any shape. As amended: it ends on every payload (the embedding is a total
  function), and it returns a record on every payload of the expected shape; on others
  it may throw a TypeError.
\<close>

theorem normalize_expected_shape:
  "expectedShape data \<Longrightarrow> \<exists>r. normalizeApiResponse data address t = Inr r"
  by (rule expectedShape_normalizes)

text \<open>The theorem at a payload of the expected shape.\<close>

theorem normalize_expected_shape_witness:
  "expectedShape onlinePayload \<and>
   (\<exists>r. normalizeApiResponse onlinePayload ''mc.example.com'' Java = Inr r)"
proof -
  have s: "expectedShape onlinePayload" by code_simp
  from normalize_expected_shape [OF s] s show ?thesis by blast
qed

text \<open>
  C3, as stated, fails at the three shapes it names: a numeric \<^verbatim>\<open>status\<close>, a numeric
  \<^verbatim>\<open>hostname\<close> and a \<^verbatim>\<open>null\<close> entry in the player list each end in a TypeError.
\<close>

theorem normalize_throws:
  "normalizeApiResponse (JObj [(''status'', JNum 5)]) ''mc.example.com'' Java = Inl TypeError \<and>
   normalizeApiResponse (JObj [(''hostname'', JNum 5)]) ''mc.example.com'' Java = Inl TypeError \<and>
   normalizeApiResponse (JObj [(''players'', JObj [(''list'', JArr [JStr ''Steve'', JNull])])])
     ''mc.example.com'' Java = Inl TypeError"
  by code_simp

text \<open>The theorem at a Bedrock query whose payload names no edition.\<close>

theorem normalize_edition_witness:
  "\<exists>r. normalizeApiResponse onlinePayload ''mc.example.com'' Bedrock = Inr r \<and>
        field r ''edition'' = JStr ''MCPE''"
proof -
  have s: "expectedShape onlinePayload" by code_simp
  from expectedShape_normalizes [OF s]
  obtain r where r: "normalizeApiResponse onlinePayload ''mc.example.com'' Bedrock = Inr r"
    by blast
  have o: "isOffline onlinePayload = Inr False" by code_simp
  have e: "\<not> truthy (field onlinePayload ''edition'')" by code_simp
  from normalize_edition [OF r] o e have "field r ''edition'' = JStr ''MCPE''" by simp
  with r show ?thesis by blast
qed

text \<open>
  C7, as stated, fails under Java at the payload \<^verbatim>\<open>{}\<close>, where \<^verbatim>\<open>edition\<close> is \<^verbatim>\<open>null\<close>,
  and at \<^verbatim>\<open>{"edition": "MCEE"}\<close>, where it is that value.
\<close>

theorem normalize_java_edition:
  "normalizeApiResponse (JObj []) ''mc.example.com'' Java =
     Inr (JObj
       [(''online'', JBool True), (''host'', JStr ''mc.example.com''),
        (''port'', JNum 25565), (''ip_address'', JUndef),
        (''eula_blocked'', JUndef), (''motd'', JUndef),
        (''version'', JObj [(''name_clean'', JUndef), (''name'', JUndef)]),
        (''players'', JObj [(''online'', JUndef), (''max'', JUndef), (''list'', JUndef)]),
        (''icon'', JUndef), (''srv_record'', JUndef), (''mods'', JUndef),
        (''software'', JUndef), (''plugins'', JUndef),
        (''gamemode'', JUndef), (''server_id'', JUndef),
        (''edition'', JNull)]) \<and>
   normalizeApiResponse (JObj [(''edition'', JStr ''MCEE'')]) ''mc.example.com'' Java =
     Inr (JObj
       [(''online'', JBool True), (''host'', JStr ''mc.example.com''),
        (''port'', JNum 25565), (''ip_address'', JUndef),
        (''eula_blocked'', JUndef), (''motd'', JUndef),
        (''version'', JObj [(''name_clean'', JUndef), (''name'', JUndef)]),
        (''players'', JObj [(''online'', JUndef), (''max'', JUndef), (''list'', JUndef)]),
        (''icon'', JUndef), (''srv_record'', JUndef), (''mods'', JUndef),
        (''software'', JUndef), (''plugins'', JUndef),
        (''gamemode'', JUndef), (''server_id'', JUndef),
        (''edition'', JStr ''MCEE'')])"
  by code_simp






lemma successfulData_none:
  "list_all (\<lambda>r. \<not> isFulfilled r) rs \<Longrightarrow> successfulData rs = JUndef"
  by (induction rs) (auto simp: successfulData_def isFulfilled_def)





lemma find_fulfilled:
  "find isFulfilled results = Some (Fulfilled data) \<Longrightarrow> successfulData results = data"
  by (simp add: successfulData_def)

lemma fetch_offline:
  assumes "validateServerAddress server = Some server" "server \<noteq> []"
    and "apiResults env (apiEndpoints config t) server = Some results"
    and "find isFulfilled results = Some (Fulfilled data)"
    and "isOffline data = Inr True"
  shows "fetchServerStatus env server t config =
           Some (Inr (JObj [(''online'', JBool False),
                            (''host'', JStr (host (parseServerAddress server (defaultPortOf t)))),
                            (''port'', JNum (port (parseServerAddress server (defaultPortOf t)))),
                            (''players'', JObj [(''online'', JNull), (''max'', JNull)]),
                            (''error'', JStr queryFailed)]))"
proof -
  from offline_is_object [OF assms(5)] have tr: "truthy data" by (auto simp: truthy_def)
  have n: "normalizeApiResponse data server t = Inr (offlineStatus data server t)"
    using assms(5) by (rule normalize_offline)
  have o: "\<not> truthy (field (offlineStatus data server t) ''online'')"
    by (simp add: field_offline truthy_def)
  show ?thesis
    unfolding fetchServerStatus_def Let_def
    by (simp add: assms(1,2,3) find_fulfilled [OF assms(4)] tr n o failedStatus_def)
qed

text \<open>
  C1. The claim: when the first successful payload is classified offline, the query
  gives an offline status whose \<^verbatim>\<open>error\<close> is the provider's own text, not the generic
  failure message. As amended: the query then gives the offline status of a failed
  lookup, with the host and port parsed from the address and the generic message of a
  failed query as \<^verbatim>\<open>error\<close>; the provider's text is not passed on.
\<close>

theorem fetch_provider_offline:
  "validateServerAddress server = Some server \<Longrightarrow> server \<noteq> [] \<Longrightarrow>
   apiResults env (apiEndpoints config t) server = Some results \<Longrightarrow>
   find isFulfilled results = Some (Fulfilled data) \<Longrightarrow>
   isOffline data = Inr True \<Longrightarrow>
   fetchServerStatus env server t config =
     Some (Inr (JObj [(''online'', JBool False),
                      (''host'', JStr (host (parseServerAddress server (defaultPortOf t)))),
                      (''port'', JNum (port (parseServerAddress server (defaultPortOf t)))),
                      (''players'', JObj [(''online'', JNull), (''max'', JNull)]),
                      (''error'', JStr queryFailed)]))"
  by (rule fetch_offline)

lemma example_results:
  "apiResults exampleEnv (apiEndpoints (Some exampleConfig) Java) address =
      Some [Fulfilled offlinePayload]"
  by (simp add: apiResults_def apiEndpoints_def exampleConfig_def exampleEnv_def typeName_def
      request_def allSettled_def settle_def)

lemma example_offline: "isOffline offlinePayload = Inr True"
  by (simp add: isOffline_def offlinePayload_def isNullish_def field_def)

lemma example_find:
  "find isFulfilled [Fulfilled offlinePayload] = Some (Fulfilled offlinePayload)"
  by (simp add: isFulfilled_def)

text \<open>The theorem at the example query.\<close>

theorem fetch_provider_offline_witness:
  "fetchServerStatus exampleEnv ''mc.example.com:25566'' Java (Some exampleConfig) =
     Some (Inr (JObj [(''online'', JBool False),
                      (''host'', JStr ''mc.example.com''),
                      (''port'', JNum 25566),
                      (''players'', JObj [(''online'', JNull), (''max'', JNull)]),
                      (''error'', JStr queryFailed)]))"
proof -
  have 1: "validateServerAddress ''mc.example.com:25566'' = Some ''mc.example.com:25566''"
    by (simp add: validateServerAddress_def toLowerCase_def lowerChar_def FORBIDDEN_PATTERNS_def
      startsWith_def private172_def afterLast_def parseInt10_def stripSign_def isSpace_def
      isDigit_def signed_def digitsVal_def digitVal_def)
  have ne: "''mc.example.com:25566'' \<noteq> []" by simp
  have 5: "parseServerAddress ''mc.example.com:25566'' (defaultPortOf Java) =
      \<lparr>host = ''mc.example.com'', port = 25566\<rparr>"
    by (simp add: parseServerAddress_def matchIpv6WithPort_def matchIpv6_def endsWith_def
      afterLast_def beforeLast_def parseInt10_def stripSign_def isSpace_def
      isDigit_def signed_def digitsVal_def digitVal_def)
  show ?thesis
    using fetch_provider_offline [OF 1 ne example_results example_find example_offline]
    by (simp only: 5 Address.simps)
qed

text \<open>
  C1, as stated, fails at the example query: the provider's payload is offline with the
  text \<^verbatim>\<open>Connection refused\<close>, and the \<^verbatim>\<open>error\<close> of the status is the generic message.
\<close>

theorem fetch_discards_provider_error:
  "isOffline offlinePayload = Inr True \<and>
   field offlinePayload ''error'' = JStr ''Connection refused'' \<and>
   apiResults exampleEnv (apiEndpoints (Some exampleConfig) Java) ''mc.example.com'' =
     Some [Fulfilled offlinePayload] \<and>
   fetchServerStatus exampleEnv ''mc.example.com'' Java (Some exampleConfig) =
     Some (Inr (JObj [(''online'', JBool False),
                      (''host'', JStr ''mc.example.com''),
                      (''port'', JNum 25565),
                      (''players'', JObj [(''online'', JNull), (''max'', JNull)]),
                      (''error'', JStr queryFailed)])) \<and>
   queryFailed \<noteq> ''Connection refused''"
proof -
  have 1: "validateServerAddress ''mc.example.com'' = Some ''mc.example.com''"
    by (simp add: validateServerAddress_def toLowerCase_def lowerChar_def FORBIDDEN_PATTERNS_def
      startsWith_def private172_def)
  have ne: "''mc.example.com'' \<noteq> []" by simp
  have 5: "parseServerAddress ''mc.example.com'' (defaultPortOf Java) =
      \<lparr>host = ''mc.example.com'', port = 25565\<rparr>"
    by (simp add: parseServerAddress_def matchIpv6WithPort_def matchIpv6_def endsWith_def
      isDigit_def defaultPortOf_def)
  have f: "fetchServerStatus exampleEnv ''mc.example.com'' Java (Some exampleConfig) =
     Some (Inr (JObj [(''online'', JBool False),
                      (''host'', JStr ''mc.example.com''),
                      (''port'', JNum 25565),
                      (''players'', JObj [(''online'', JNull), (''max'', JNull)]),
                      (''error'', JStr queryFailed)]))"
    using fetch_offline [OF 1 ne example_results example_find example_offline]
    by (simp only: 5 Address.simps)
  have e: "field offlinePayload ''error'' = JStr ''Connection refused''"
    by (simp add: offlinePayload_def field_def)
  have q: "queryFailed \<noteq> ''Connection refused''" by (simp add: queryFailed_def)
  from example_offline e example_results f q show ?thesis by (intro conjI)
qed

section \<open>Properties of the renderer\<close>

lemma split_absent: "c \<notin> set x \<Longrightarrow> split c x = [x]"
  by (induction x) auto

lemma split_append: "c \<notin> set x \<Longrightarrow> split c (x @ c # rest) = x # split c rest"
  by (induction x) auto

lemma split_join:
  "ls \<noteq> [] \<Longrightarrow> \<forall>l \<in> set ls. c \<notin> set l \<Longrightarrow> split c (join [c] ls) = ls"
proof (induction "[c]" ls rule: join.induct)
  case 1
  then show ?case by simp
next
  case (2 x)
  then show ?case by (simp add: split_absent)
next
  case (3 x y ys)
  then show ?case by (simp add: split_append)
qed

lemma format_lines:
  assumes "online status" "ls \<noteq> []" "\<forall>l \<in> set ls. newline \<notin> set l"
  shows "formatServerStatus img status (template (join [newline] ls)) =
     Some (trim (collapse 0 (join [newline]
       (filter (\<lambda>line. length (trim line) > 0) (map (renderLine img status) ls)))))"
  using assms by (simp add: formatServerStatus_def template_def split_join)

lemma blank_line_dropped:
  assumes "online status" "trim (renderLine img status l) = []" "newline \<notin> set l"
    "\<forall>x \<in> set (xs @ ys). newline \<notin> set x" "xs @ ys \<noteq> []"
  shows "formatServerStatus img status (template (join [newline] (xs @ l # ys))) =
         formatServerStatus img status (template (join [newline] (xs @ ys)))"
proof -
  have 1: "\<forall>x \<in> set (xs @ l # ys). newline \<notin> set x" using assms(3,4) by auto
  have 2: "xs @ l # ys \<noteq> []" by simp
  show ?thesis
    unfolding format_lines [OF assms(1) 2 1] format_lines [OF assms(1,5,4)]
    using assms(2) by simp
qed











lemma scan_skip: "scan (length u) (u @ v) = scan 0 v"
  by (induction u) auto

lemma matchAt_other: "c \<noteq> CHR ''{'' \<Longrightarrow> matchAt (c # r) = None"
  by (simp add: matchAt_def)

lemma scan_literal: "CHR ''{'' \<notin> set lit \<Longrightarrow> scan 0 (lit @ s) = map Lit lit @ scan 0 s"
  by (induction lit) (auto simp: matchAt_other)

lemma takeWhile_name:
  assumes "list_all nameChar name" "\<not> nameChar d"
  shows "takeWhile nameChar (name @ d # rest) = name"
    and "dropWhile nameChar (name @ d # rest) = d # rest"
proof -
  have "takeWhile nameChar (name @ d # rest) = name @ takeWhile nameChar (d # rest)"
    by (rule takeWhile_append2) (use assms(1) in \<open>simp add: list_all_iff\<close>)
  then show "takeWhile nameChar (name @ d # rest) = name" using assms(2) by simp
  have "dropWhile nameChar (name @ d # rest) = dropWhile nameChar (d # rest)"
    by (rule dropWhile_append2) (use assms(1) in \<open>simp add: list_all_iff\<close>)
  then show "dropWhile nameChar (name @ d # rest) = d # rest" using assms(2) by simp
qed

lemma takeWhile_digits:
  assumes "list_all isDigit ds" "\<not> isDigit d"
  shows "takeWhile isDigit (ds @ d # rest) = ds"
    and "dropWhile isDigit (ds @ d # rest) = d # rest"
proof -
  have "takeWhile isDigit (ds @ d # rest) = ds @ takeWhile isDigit (d # rest)"
    by (rule takeWhile_append2) (use assms(1) in \<open>simp add: list_all_iff\<close>)
  then show "takeWhile isDigit (ds @ d # rest) = ds" using assms(2) by simp
  have "dropWhile isDigit (ds @ d # rest) = dropWhile isDigit (d # rest)"
    by (rule dropWhile_append2) (use assms(1) in \<open>simp add: list_all_iff\<close>)
  then show "dropWhile isDigit (ds @ d # rest) = d # rest" using assms(2) by simp
qed

lemma matchAt_hole:
  assumes "name \<noteq> []" "list_all nameChar name"
  shows "matchAt (CHR ''{'' # name @ CHR ''}'' # rest) = Some (name, None, rest)"
proof -
  have n: "\<not> nameChar (CHR ''}'')" by (simp add: nameChar_def)
  show ?thesis
    unfolding matchAt_def list.case takeWhile_name [OF assms(2) n]
    using assms(1) by simp
qed

lemma matchAt_hole_limit:
  assumes "name \<noteq> []" "list_all nameChar name" "ds \<noteq> []" "list_all isDigit ds"
  shows "matchAt (CHR ''{'' # name @ CHR '':'' # ds @ CHR ''}'' # rest) = Some (name, Some ds, rest)"
proof -
  have n: "\<not> nameChar (CHR '':'')" by (simp add: nameChar_def)
  have d: "\<not> isDigit (CHR ''}'')" by (simp add: isDigit_def)
  show ?thesis
    unfolding matchAt_def list.case takeWhile_name [OF assms(2) n] takeWhile_digits [OF assms(4) d]
    using assms(1,3) by simp
qed

lemma scan_hole:
  assumes "name \<noteq> []" "list_all nameChar name"
  shows "scan 0 (CHR ''{'' # name @ CHR ''}'' # rest) = Hole name None # scan 0 rest"
proof -
  have "scan (length (name @ ''}'')) ((name @ ''}'') @ rest) = scan 0 rest" by (rule scan_skip)
  then show ?thesis by (simp add: matchAt_hole [OF assms])
qed

lemma scan_hole_limit:
  assumes "name \<noteq> []" "list_all nameChar name" "ds \<noteq> []" "list_all isDigit ds"
  shows "scan 0 (CHR ''{'' # name @ CHR '':'' # ds @ CHR ''}'' # rest) =
           Hole name (Some ds) # scan 0 rest"
proof -
  have "scan (length (name @ '':'' @ ds @ ''}'')) ((name @ '':'' @ ds @ ''}'') @ rest) = scan 0 rest"
    by (rule scan_skip)
  then show ?thesis by (simp add: matchAt_hole_limit [OF assms])
qed

lemma placeholders_literal: "CHR ''{'' \<notin> set lit \<Longrightarrow> placeholders lit = []"
  using scan_literal [of lit "[]"] by (simp add: placeholders_def o_def)

lemma replaceAll_literal: "CHR ''{'' \<notin> set lit \<Longrightarrow> replaceAll f lit = lit"
  using scan_literal [of lit "[]"] by (simp add: replaceAll_def o_def)

lemma placeholders_hole:
  assumes "CHR ''{'' \<notin> set lit" "name \<noteq> []" "list_all nameChar name"
  shows "placeholders (lit @ ''{'' @ name @ ''}'' @ rest) = (name, None) # placeholders rest"
    and "replaceAll f (lit @ ''{'' @ name @ ''}'' @ rest) = lit @ f name None @ replaceAll f rest"
  using scan_literal [OF assms(1), of "CHR ''{'' # name @ CHR ''}'' # rest"] scan_hole [OF assms(2,3), of rest]
  by (simp_all add: placeholders_def replaceAll_def o_def)

lemma placeholders_hole_limit:
  assumes "CHR ''{'' \<notin> set lit" "name \<noteq> []" "list_all nameChar name" "ds \<noteq> []" "list_all isDigit ds"
  shows "placeholders (lit @ ''{'' @ name @ '':'' @ ds @ ''}'' @ rest) =
           (name, Some ds) # placeholders rest"
    and "replaceAll f (lit @ ''{'' @ name @ '':'' @ ds @ ''}'' @ rest) =
           lit @ f name (Some ds) @ replaceAll f rest"
  using scan_literal [OF assms(1), of "CHR ''{'' # name @ CHR '':'' # ds @ CHR ''}'' # rest"]
    scan_hole_limit [OF assms(2,3,4,5), of rest]
  by (simp_all add: placeholders_def replaceAll_def o_def)

lemma example_placeholders:
  "placeholders ''Ping: {ping}'' = [(''ping'', None)]"
  "placeholders ''Players: {online}/{max}'' = [(''online'', None), (''max'', None)]"
  "replaceAll f ''Players: {online}/{max}'' =
     ''Players: '' @ f ''online'' None @ ''/'' @ f ''max'' None"
  by (simp_all add: placeholders_def replaceAll_def matchAt_def nameChar_def)

lemma example_render:
  assumes "online status" "ping status = None"
    "players_online (players status) = Some 5" "players_max (players status) = Some 20"
  shows "formatServerStatus img status
           (template (''Ping: {ping}'' @ [newline] @ ''Players: {online}/{max}'')) =
         Some ''Players: 5/20''"
proof -
  have g: "getValue img status ''ping'' None = None"
    "getValue img status ''online'' None = Some ''5''"
    "getValue img status ''max'' None = Some ''20''"
    using assms(2,3,4)
    by (simp_all add: getValue_def numToString_def natToString.simps digitChar_def)
  have l1: "renderLine img status ''Ping: {ping}'' = []"
    by (simp add: renderLine_def example_placeholders limitOf_def g isEmptyValue_def)
  have l2: "renderLine img status ''Players: {online}/{max}'' = ''Players: 5/20''"
    by (simp add: renderLine_def example_placeholders limitOf_def g isEmptyValue_def)
  have t: "trim [] = []" "trim ''Players: 5/20'' = ''Players: 5/20''"
    by (simp_all add: trim_def isSpace_def)
  have c: "collapse 0 ''Players: 5/20'' = ''Players: 5/20''"
    by (simp add: newline_def)
  have j: "''Ping: {ping}'' @ [newline] @ ''Players: {online}/{max}'' =
      join [newline] [''Ping: {ping}'', ''Players: {online}/{max}'']" by simp
  have n: "\<forall>l \<in> set [''Ping: {ping}'', ''Players: {online}/{max}'']. newline \<notin> set l"
    by (simp add: newline_def)
  have ne: "[''Ping: {ping}'', ''Players: {online}/{max}''] \<noteq> []" by simp
  have f: "filter (\<lambda>line. length (trim line) > 0)
        (map (renderLine img status) [''Ping: {ping}'', ''Players: {online}/{max}'']) =
      [''Players: 5/20'']"
    by (simp add: l1 l2 t)
  show ?thesis
    unfolding j format_lines [OF assms(1) ne n] f
    by (simp only: join.simps c t)
qed

text \<open>
  C8. For an online status, a line of the template with at least one placeholder, all
  of whose placeholders resolve to nothing or to the empty string, is rendered as the
  empty line and leaves no trace in the output: the template renders as it does without
  that line. Any other line is rendered by putting the value of each placeholder in its
  place, the empty string for a value that is missing; the text outside the placeholders
  stays as it is, a placeholder being \<^verbatim>\<open>{name}\<close> or \<^verbatim>\<open>{name:digits}\<close>. The output is made
  of the rendered lines that are not blank. In particular the template
  \<^verbatim>\<open>Ping: {ping}\<close>, \<^verbatim>\<open>Players: {online}/{max}\<close> renders as \<^verbatim>\<open>Players: 5/20\<close> for every
  online status with no latency, 5 players online and 20 at most.
\<close>

theorem render_line_rule:
  assumes "online status"
  shows
   "(placeholders l \<noteq> [] \<and>
     list_all (\<lambda>(name, limit). isEmptyValue (getValue img status name (limitOf limit)))
       (placeholders l) \<longrightarrow>
       renderLine img status l = [] \<and>
       (newline \<notin> set l \<and> (\<forall>x \<in> set (xs @ ys). newline \<notin> set x) \<and> xs @ ys \<noteq> [] \<longrightarrow>
          formatServerStatus img status (template (join [newline] (xs @ l # ys))) =
          formatServerStatus img status (template (join [newline] (xs @ ys))))) \<and>
    (\<not> (placeholders l \<noteq> [] \<and>
        list_all (\<lambda>(name, limit). isEmptyValue (getValue img status name (limitOf limit)))
          (placeholders l)) \<longrightarrow>
       renderLine img status l =
         replaceAll (\<lambda>name limit. case getValue img status name (limitOf limit) of
                                     None \<Rightarrow> [] | Some v \<Rightarrow> v) l) \<and>
    (CHR ''{'' \<notin> set lit \<longrightarrow> placeholders lit = [] \<and> replaceAll f lit = lit) \<and>
    (CHR ''{'' \<notin> set lit \<and> name \<noteq> [] \<and> list_all nameChar name \<longrightarrow>
       placeholders (lit @ ''{'' @ name @ ''}'' @ rest) = (name, None) # placeholders rest \<and>
       replaceAll f (lit @ ''{'' @ name @ ''}'' @ rest) = lit @ f name None @ replaceAll f rest) \<and>
    (CHR ''{'' \<notin> set lit \<and> name \<noteq> [] \<and> list_all nameChar name \<and> ds \<noteq> [] \<and>
     list_all isDigit ds \<longrightarrow>
       placeholders (lit @ ''{'' @ name @ '':'' @ ds @ ''}'' @ rest) =
         (name, Some ds) # placeholders rest \<and>
       replaceAll f (lit @ ''{'' @ name @ '':'' @ ds @ ''}'' @ rest) =
         lit @ f name (Some ds) @ replaceAll f rest) \<and>
    (ls \<noteq> [] \<and> (\<forall>x \<in> set ls. newline \<notin> set x) \<longrightarrow>
       formatServerStatus img status (template (join [newline] ls)) =
         Some (trim (collapse 0 (join [newline]
           (filter (\<lambda>line. length (trim line) > 0) (map (renderLine img status) ls)))))) \<and>
    (ping status = None \<and> players_online (players status) = Some 5 \<and>
     players_max (players status) = Some 20 \<longrightarrow>
       formatServerStatus img status
         (template (''Ping: {ping}'' @ [newline] @ ''Players: {online}/{max}'')) =
       Some ''Players: 5/20'')"
proof (intro conjI impI)
  assume a: "placeholders l \<noteq> [] \<and>
     list_all (\<lambda>(name, limit). isEmptyValue (getValue img status name (limitOf limit)))
       (placeholders l)"
  then show e: "renderLine img status l = []" by (simp add: renderLine_def)
  assume b: "newline \<notin> set l \<and> (\<forall>x \<in> set (xs @ ys). newline \<notin> set x) \<and> xs @ ys \<noteq> []"
  have "trim (renderLine img status l) = []" by (simp add: e trim_def)
  with assms b show "formatServerStatus img status (template (join [newline] (xs @ l # ys))) =
          formatServerStatus img status (template (join [newline] (xs @ ys)))"
    by (intro blank_line_dropped) simp_all
next
  assume "\<not> (placeholders l \<noteq> [] \<and>
        list_all (\<lambda>(name, limit). isEmptyValue (getValue img status name (limitOf limit)))
          (placeholders l))"
  then show "renderLine img status l =
         replaceAll (\<lambda>name limit. case getValue img status name (limitOf limit) of
                                     None \<Rightarrow> [] | Some v \<Rightarrow> v) l"
    by (auto simp: renderLine_def)
next
  assume "CHR ''{'' \<notin> set lit"
  then show "placeholders lit = []" "replaceAll f lit = lit"
    by (rule placeholders_literal, rule replaceAll_literal)
next
  assume a: "CHR ''{'' \<notin> set lit \<and> name \<noteq> [] \<and> list_all nameChar name"
  then show "placeholders (lit @ ''{'' @ name @ ''}'' @ rest) = (name, None) # placeholders rest"
    using placeholders_hole(1) by blast
  from a show "replaceAll f (lit @ ''{'' @ name @ ''}'' @ rest) = lit @ f name None @ replaceAll f rest"
    using placeholders_hole(2) by blast
next
  assume a: "CHR ''{'' \<notin> set lit \<and> name \<noteq> [] \<and> list_all nameChar name \<and> ds \<noteq> [] \<and>
     list_all isDigit ds"
  then show "placeholders (lit @ ''{'' @ name @ '':'' @ ds @ ''}'' @ rest) =
         (name, Some ds) # placeholders rest"
    using placeholders_hole_limit(1) by blast
  from a show "replaceAll f (lit @ ''{'' @ name @ '':'' @ ds @ ''}'' @ rest) =
         lit @ f name (Some ds) @ replaceAll f rest"
    using placeholders_hole_limit(2) by blast
next
  assume "ls \<noteq> [] \<and> (\<forall>x \<in> set ls. newline \<notin> set x)"
  with assms show "formatServerStatus img status (template (join [newline] ls)) =
         Some (trim (collapse 0 (join [newline]
           (filter (\<lambda>line. length (trim line) > 0) (map (renderLine img status) ls)))))"
    using format_lines by blast
next
  assume "ping status = None \<and> players_online (players status) = Some 5 \<and>
     players_max (players status) = Some 20"
  with assms show "formatServerStatus img status
         (template (''Ping: {ping}'' @ [newline] @ ''Players: {online}/{max}'')) =
       Some ''Players: 5/20''"
    using example_render by blast
qed

text \<open>The theorem at the example status, for the template of the claim.\<close>

theorem render_line_rule_witness:
  "formatServerStatus id exampleStatus
     (template (''Ping: {ping}'' @ [newline] @ ''Players: {online}/{max}'')) =
   Some ''Players: 5/20'' \<and>
   renderLine id exampleStatus ''Ping: {ping}'' = []"
proof -
  have o: "online exampleStatus" by (simp add: exampleStatus_def)
  note T = render_line_rule [OF o, where img = id]
  have h: "ping exampleStatus = None \<and> players_online (players exampleStatus) = Some 5 \<and>
     players_max (players exampleStatus) = Some 20"
    by (simp add: exampleStatus_def)
  have 1: "formatServerStatus id exampleStatus
     (template (''Ping: {ping}'' @ [newline] @ ''Players: {online}/{max}'')) =
   Some ''Players: 5/20''"
    using T [THEN conjunct2, THEN conjunct2, THEN conjunct2, THEN conjunct2, THEN conjunct2,
        THEN conjunct2, THEN mp, OF h] .
  have g: "getValue id exampleStatus ''ping'' None = None"
    by (simp add: getValue_def exampleStatus_def)
  have p: "placeholders ''Ping: {ping}'' \<noteq> [] \<and>
     list_all (\<lambda>(name, limit). isEmptyValue (getValue id exampleStatus name (limitOf limit)))
       (placeholders ''Ping: {ping}'')"
    by (simp add: example_placeholders limitOf_def g isEmptyValue_def)
  have 2: "renderLine id exampleStatus ''Ping: {ping}'' = []"
    using T [THEN conjunct1, THEN mp, OF p, THEN conjunct1] .
  from 1 2 show ?thesis by (intro conjI)
qed









end
